theory Spec2Isabelle
  imports Main
begin

section \<open>The rendered output and the template interface of the host framework\<close>

text \<open>
  The two components of the repository are declarative templates over three directives of
  the host framework: \<open>*ngFor\<close>, \<open>*ngIf ... else\<close> and \<open>ngTemplateOutlet\<close> with
  \<open>ngTemplateOutletContext\<close>. The directives are modelled as the tutorial text of the
  repository describes them (``Inserts an embedded view from a prepared TemplateRef'';
  ``A context object to attach to the EmbeddedViewRef. Using the key \<open>$implicit\<close> in the
  context object will set its value as default'').

  A DOM node is a text node or an element with a tag, a \<open>class\<close> attribute and children.
\<close>

datatype node = Text string | Elem string string "node list"

fun childNodes :: "node \<Rightarrow> node list" where
  "childNodes (Text s) = []"
| "childNodes (Elem tag cls ch) = ch"

fun textContent :: "node \<Rightarrow> string" where
  "textContent (Text s) = s"
| "textContent (Elem tag cls ch) = concat (map textContent ch)"

text \<open>
  A context object is an object literal: its keys with their values, in the order written.
  The items are of type \<open>any\<close> in the source, so the model is polymorphic in them.
\<close>

type_synonym 'a outlet_context = "(string \<times> 'a) list"

text \<open>
  \<open>TemplateRef\<close> is opaque to the components: the only thing they do with one is hand it
  to \<open>ngTemplateOutlet\<close>, which instantiates it with a context.
\<close>

datatype 'a TemplateRef = TemplateRef (instantiate: "'a outlet_context \<Rightarrow> node list")

record 'a EmbeddedViewRef =
  view_context :: "'a outlet_context"
  rootNodes :: "node list"

definition createEmbeddedView :: "'a TemplateRef \<Rightarrow> 'a outlet_context \<Rightarrow> 'a EmbeddedViewRef" where
  "createEmbeddedView t ctx = \<lparr>view_context = ctx, rootNodes = instantiate t ctx\<rparr>"

text \<open>
  \<open>[ngTemplateOutlet]="t" [ngTemplateOutletContext]="ctx"\<close>: the view container of the
  \<open>ng-container\<close> holds one embedded view of \<open>t\<close>, or nothing when \<open>t\<close> is not set.
\<close>

definition ngTemplateOutlet :: "'a TemplateRef option \<Rightarrow> 'a outlet_context \<Rightarrow> 'a EmbeddedViewRef list" where
  "ngTemplateOutlet t ctx = (case t of None \<Rightarrow> [] | Some r \<Rightarrow> [createEmbeddedView r ctx])"

text \<open>
  A template variable: \<open>let-name\<close> (no key) reads the key \<open>$implicit\<close> of the context,
  \<open>let-age="age"\<close> reads the key \<open>age\<close>; a key the context does not have gives no value
  (\<open>undefined\<close>).
\<close>

definition let_binding :: "string option \<Rightarrow> 'a outlet_context \<Rightarrow> 'a option" where
  "let_binding key ctx = map_of ctx (case key of None \<Rightarrow> ''$implicit'' | Some k \<Rightarrow> k)"

text \<open>
  \<open>*ngFor="let item of data"\<close>: one pass over the sequence, each instance appended to the
  view container after the ones already there.
\<close>

fun ngForOf :: "'a list \<Rightarrow> ('a \<Rightarrow> 'b) \<Rightarrow> 'b list \<Rightarrow> 'b list" where
  "ngForOf [] f views = views"
| "ngForOf (item # rest) f views = ngForOf rest f (views @ [f item])"

section \<open>ListComponent\<close>

text \<open>
  \<^verbatim>\<open>
  <ul class="list">
    <li class="list-item" *ngFor="let item of data">
      <ng-container [ngTemplateOutlet]="itemTemplate"
                    [ngTemplateOutletContext]="{ $implicit: item }"></ng-container>
    </li>
  </ul>
  \<close>
  The component has the two inputs \<open>data\<close> and \<open>itemTemplate\<close>; an input that the parent
  does not bind stays unset, which is \<open>None\<close> for the template. The third field is the
  output region the component owns: for each \<open>li\<close>, the views in its \<open>ng-container\<close>.
\<close>

record 'a ListComponent =
  data :: "'a list"
  itemTemplate :: "'a TemplateRef option"
  hostView :: "'a EmbeddedViewRef list list"

definition list_item :: "'a TemplateRef option \<Rightarrow> 'a \<Rightarrow> 'a EmbeddedViewRef list" where
  "list_item tpl item = ngTemplateOutlet tpl [(''$implicit'', item)]"

definition ListComponent_template :: "'a list \<Rightarrow> 'a TemplateRef option \<Rightarrow> 'a EmbeddedViewRef list list" where
  "ListComponent_template items tpl = ngForOf items (list_item tpl) []"

definition renderedViews :: "'a EmbeddedViewRef list list \<Rightarrow> 'a EmbeddedViewRef list" where
  "renderedViews lis = concat lis"

definition li_node :: "'a EmbeddedViewRef list \<Rightarrow> node" where
  "li_node views = Elem ''li'' ''list-item'' (concat (map rootNodes views))"

definition ListComponent_dom :: "'a EmbeddedViewRef list list \<Rightarrow> node" where
  "ListComponent_dom lis = Elem ''ul'' ''list'' (map li_node lis)"

text \<open>A change-detection pass recomputes the output region from the two inputs.\<close>

definition render :: "'a ListComponent \<Rightarrow> 'a ListComponent" where
  "render c = c\<lparr>hostView := ListComponent_template (data c) (itemTemplate c)\<rparr>"

section \<open>A caller's template\<close>

text \<open>
  A parent in the manner of the tutorial's (which also shows a rating and wraps the text
  in markup): it passes objects with an \<open>id\<close> and a \<open>name\<close> and the template
  \<^verbatim>\<open><ng-template #item let-item>{{ item.id }} - {{ item.name }}</ng-template>\<close>.
  An interpolated whole number is printed in decimal.
\<close>

datatype product = Product (product_id: int) (product_name: string)

definition digit_char :: "nat \<Rightarrow> char" where
  "digit_char d = ''0123456789'' ! d"

fun string_of_nat :: "nat \<Rightarrow> string" where
  "string_of_nat n =
     (if n < 10 then [digit_char n] else string_of_nat (n div 10) @ [digit_char (n mod 10)])"

declare string_of_nat.simps [simp del]

definition toString :: "int \<Rightarrow> string" where
  "toString i = (if i < 0 then ''-'' @ string_of_nat (nat (- i)) else string_of_nat (nat i))"

text \<open>
  The template reads its one variable \<open>item\<close> from the default slot. The list component
  always fills that slot; instantiated without it, the template has nothing to print.
\<close>

definition id_name_template :: "product TemplateRef" where
  "id_name_template = TemplateRef (\<lambda>ctx.
     case let_binding None ctx of
       Some item \<Rightarrow> [Text (toString (product_id item) @ '' - '' @ product_name item)]
     | None \<Rightarrow> [])"

definition view_text :: "'a EmbeddedViewRef \<Rightarrow> string" where
  "view_text v = concat (map textContent (rootNodes v))"

section \<open>CardComponent\<close>

text \<open>
  \<^verbatim>\<open>
  <div class="card">
    <header *ngIf="isTitleAString(); else titleTemplateWrapper">{{ title }}</header>
    <ng-template #titleTemplateWrapper>
      <ng-container [ngTemplateOutlet]="title"></ng-container>
    </ng-template>
    <article><ng-content></ng-content></article>
  </div>

  @Input() title: string | TemplateRef<HTMLElement>;
  isTitleAString = () => typeof this.title == 'string';
  \<close>
  The input is a string or a template, or unset (\<open>None\<close>) when the parent binds
  nothing to it.
\<close>

datatype 'a title = TitleString string | TitleTemplateRef "'a TemplateRef"

record 'a CardComponent =
  title :: "'a title option"

fun typeof :: "'a title option \<Rightarrow> string" where
  "typeof None = ''undefined''"
| "typeof (Some (TitleString s)) = ''string''"
| "typeof (Some (TitleTemplateRef t)) = ''object''"

definition isTitleAString :: "'a CardComponent \<Rightarrow> bool" where
  "isTitleAString c = (typeof (title c) = ''string'')"

text \<open>\<open>{{ title }}\<close>: a string prints as it is, an unset value as the empty string.\<close>

fun interpolate :: "'a title option \<Rightarrow> string" where
  "interpolate None = []"
| "interpolate (Some (TitleString s)) = s"
| "interpolate (Some (TitleTemplateRef t)) = ''[object Object]''"

definition header :: "'a CardComponent \<Rightarrow> node" where
  "header c = Elem ''header'' [] [Text (interpolate (title c))]"

text \<open>
  The outlet of the else branch is given \<open>title\<close> and no context. A string is not a
  template: the outlet cannot create a view from it and the framework throws.
\<close>

datatype error = TypeError

definition titleTemplateWrapper :: "'a CardComponent \<Rightarrow> error + 'a EmbeddedViewRef list" where
  "titleTemplateWrapper c =
     (case title c of
        None \<Rightarrow> Inr (ngTemplateOutlet None [])
      | Some (TitleTemplateRef t) \<Rightarrow> Inr (ngTemplateOutlet (Some t) [])
      | Some (TitleString s) \<Rightarrow> Inl TypeError)"

text \<open>\<open>*ngIf="cond; else other"\<close> renders the host element or the other template.\<close>

datatype ('t, 'e) ngIf_view = ThenView 't | ElseView 'e

definition ngIf :: "bool \<Rightarrow> 't \<Rightarrow> 'e \<Rightarrow> ('t, 'e) ngIf_view" where
  "ngIf cond host other = (if cond then ThenView host else ElseView other)"

definition CardComponent_header ::
    "'a CardComponent \<Rightarrow> (node, error + 'a EmbeddedViewRef list) ngIf_view" where
  "CardComponent_header c = ngIf (isTitleAString c) (header c) (titleTemplateWrapper c)"

definition CardComponent_template :: "'a CardComponent \<Rightarrow> node list \<Rightarrow> error + node" where
  "CardComponent_template c content =
     (case CardComponent_header c of
        ThenView h \<Rightarrow> Inr (Elem ''div'' ''card'' [h, Elem ''article'' [] content])
      | ElseView (Inl e) \<Rightarrow> Inl e
      | ElseView (Inr views) \<Rightarrow>
          Inr (Elem ''div'' ''card'' (concat (map rootNodes views) @ [Elem ''article'' [] content])))"

section \<open>Helper facts\<close>

lemma ngForOf_append_map: "ngForOf xs f views = views @ map f xs"
  by (induction xs arbitrary: views) simp_all

lemma list_item_Some:
  "list_item (Some t) = (\<lambda>item. [createEmbeddedView t [(''$implicit'', item)]])"
  by (rule ext) (simp add: list_item_def ngTemplateOutlet_def)

lemma ListComponent_template_Some:
  "ListComponent_template items (Some t) =
     map (\<lambda>item. [createEmbeddedView t [(''$implicit'', item)]]) items"
  by (simp add: ListComponent_template_def ngForOf_append_map list_item_Some)

lemma list_item_None: "list_item None = (\<lambda>item. [])"
  by (rule ext) (simp add: list_item_def ngTemplateOutlet_def)

lemma ListComponent_template_None:
  "ListComponent_template items None = replicate (length items) []"
  by (simp add: ListComponent_template_def ngForOf_append_map list_item_None map_replicate_const)

lemma renderedViews_Some:
  "renderedViews (ListComponent_template items (Some t)) =
     map (\<lambda>item. createEmbeddedView t [(''$implicit'', item)]) items"
  by (simp add: renderedViews_def ListComponent_template_Some)

section \<open>Properties of ListComponent\<close>


text \<open>
  C2 (as stated, refuted): with the template unset the output is not empty. For a data
  sequence of one item the list still has a list item.
\<close>

theorem render_without_template_output_nonempty:
  "childNodes (ListComponent_dom (ListComponent_template [Product 4 ''Laptop''] None)) \<noteq> []"
  by (simp add: ListComponent_template_None ListComponent_dom_def)

text \<open>
  C2 (amended): with the template unset, rendering any sequence gives no view at all and
  does not fail; the output is the list with one empty list item for each item of the
  sequence.
\<close>

theorem render_without_template:
  "renderedViews (ListComponent_template S None) = [] \<and>
   ListComponent_dom (ListComponent_template S None)
     = Elem ''ul'' ''list'' (replicate (length S) (Elem ''li'' ''list-item'' []))"
  by (simp add: renderedViews_def ListComponent_template_None ListComponent_dom_def li_node_def)

text \<open>
  C3: rendering is one ordered pass: each item, in sequence order, gives one instance of
  the template whose context has the item in its default slot, and the instances are
  attached to the output in that order (so rendering a concatenation is the concatenation
  of the renderings).
\<close>

theorem render_ordered_traversal:
  "ListComponent_template S (Some T)
     = map (\<lambda>item. [createEmbeddedView T [(''$implicit'', item)]]) S \<and>
   ListComponent_template (S1 @ S2) (Some T)
     = ListComponent_template S1 (Some T) @ ListComponent_template S2 (Some T) \<and>
   ListComponent_dom (ListComponent_template S (Some T))
     = Elem ''ul'' ''list''
         (map (\<lambda>item. Elem ''li'' ''list-item'' (instantiate T [(''$implicit'', item)])) S)"
  by (simp add: ListComponent_template_Some ListComponent_dom_def li_node_def
      createEmbeddedView_def comp_def)

text \<open>
  C4: rendering the empty sequence gives no view, whatever the template is (set or not).
\<close>

theorem render_empty_sequence:
  "renderedViews (ListComponent_template [] T) = [] \<and>
   ListComponent_dom (ListComponent_template [] T) = Elem ''ul'' ''list'' []"
  by (simp add: renderedViews_def ListComponent_template_def ListComponent_dom_def)

text \<open>
  C6: rendering changes the output region only: the data and the template are as they
  were, and the component after the pass is the component before it with a new output
  region.
\<close>

theorem render_frame:
  "data (render c) = data c \<and> itemTemplate (render c) = itemTemplate c \<and>
   render c = c\<lparr>hostView := hostView (render c)\<rparr>"
  by (simp add: render_def)



text \<open>
  C8: for the items \<open>{id: 4, name: "Laptop"}\<close> and \<open>{id: 5, name: "Phone"}\<close> and the
  template that prints \<open>id - name\<close>, rendering gives exactly two views, with the texts
  \<open>4 - Laptop\<close> and \<open>5 - Phone\<close>, in that order.
\<close>

theorem scenario_laptop_phone:
  "map view_text (renderedViews (ListComponent_template
       [Product 4 ''Laptop'', Product 5 ''Phone''] (Some id_name_template)))
     = [''4 - Laptop'', ''5 - Phone'']"
  by (simp add: renderedViews_Some createEmbeddedView_def id_name_template_def let_binding_def
      view_text_def toString_def string_of_nat.simps digit_char_def)




section \<open>Properties of CardComponent\<close>

text \<open>
  C10 (as stated, refuted): a title that is not a string is not always instantiated in
  the header's place. With the title unset the else branch is taken and its outlet
  inserts nothing: the card has neither a header nor a view of a template.
\<close>

theorem title_unset_renders_nothing:
  "\<not> isTitleAString \<lparr>title = (None :: product title option)\<rparr> \<and>
   CardComponent_header \<lparr>title = (None :: product title option)\<rparr> = ElseView (Inr []) \<and>
   CardComponent_template \<lparr>title = (None :: product title option)\<rparr> [Text ''body'']
     = Inr (Elem ''div'' ''card'' [Elem ''article'' [] [Text ''body'']])"
  by (simp add: isTitleAString_def CardComponent_header_def CardComponent_template_def ngIf_def
      titleTemplateWrapper_def ngTemplateOutlet_def)

text \<open>
  C10 (amended): the title dispatch is a total two-way branch on the runtime type of the
  title. Exactly when the title is a string, the header branch renders, with the string
  as its text. Otherwise the else branch renders in the header's place and hands the
  title to the template outlet, which instantiates it when it is a template and inserts
  nothing when the title is unset. Exactly one of the two branches renders, and the
  outlet is never given a string.
\<close>

theorem title_dispatch:
  "isTitleAString c = (\<exists>s. title c = Some (TitleString s)) \<and>
   CardComponent_header c =
     (case title c of
        Some (TitleString s) \<Rightarrow> ThenView (Elem ''header'' [] [Text s])
      | Some (TitleTemplateRef t) \<Rightarrow> ElseView (Inr [createEmbeddedView t []])
      | None \<Rightarrow> ElseView (Inr [])) \<and>
   CardComponent_template c content \<noteq> Inl TypeError"
  by (auto simp: isTitleAString_def CardComponent_header_def CardComponent_template_def ngIf_def
      titleTemplateWrapper_def ngTemplateOutlet_def header_def
      split: option.splits title.splits)

end
